theory Spec2Isabelle
  imports Complex_Main
begin

section \<open>JavaScript values as the route handlers see them\<close>

text \<open>
  The handlers under \<open>web/app/api\<close> read a request body with \<open>request.json()\<close>, test
  properties with \<open>!x\<close> and \<open>x || y\<close>, and hand values to \<open>JSON.stringify\<close>. A value is
  what \<open>JSON.parse\<close> can return, plus \<open>undefined\<close> (the result of reading a property
  that is not there). Strings are byte lists holding the UTF-8 form of the text; string
  literals of the source are ASCII. An object is the list of its own properties.
\<close>

datatype jsval =
    JUndefined
  | JNull
  | JBool bool
  | JNum rat
  | JStr string
  | JArr "jsval list"
  | JObj "(string \<times> jsval) list"

text \<open>What JavaScript throws inside a handler's \<open>try\<close> block.\<close>

datatype exn =
    SyntaxError    \<comment> \<open>\<open>request.json()\<close> or \<open>response.json()\<close> on a body that is not JSON\<close>
  | TypeError      \<comment> \<open>a property read on \<open>null\<close>; a body given to a null-body status\<close>
  | RangeError     \<comment> \<open>a response status outside 200..599\<close>
  | FetchFailed    \<comment> \<open>\<open>fetch\<close> rejected: the backend could not be reached\<close>

text \<open>\<open>!v\<close> is \<open>\<not> truthy v\<close>: \<open>undefined\<close>, \<open>null\<close>, \<open>false\<close>, \<open>0\<close> and \<open>''\<close> are falsy.\<close>

fun truthy :: "jsval \<Rightarrow> bool" where
  "truthy JUndefined = False"
| "truthy JNull = False"
| "truthy (JBool b) = b"
| "truthy (JNum n) = (n \<noteq> 0)"
| "truthy (JStr s) = (s \<noteq> [])"
| "truthy (JArr _) = True"
| "truthy (JObj _) = True"

text \<open>
  \<open>v.name\<close> and \<open>v[name]\<close>: a \<open>TypeError\<close> on \<open>null\<close> and \<open>undefined\<close>, the own property
  of an object, and \<open>undefined\<close> otherwise. (None of the names the handlers read,
  \<open>query\<close>, \<open>context\<close>, \<open>error\<close>, \<open>response\<close>, \<open>agents_used\<close>, \<open>dj_name\<close>, \<open>date\<close>,
  \<open>time\<close>, \<open>hours\<close>, \<open>venue\<close>, is a built-in property of a string, number, boolean or
  array.)
\<close>

fun get_prop :: "jsval \<Rightarrow> string \<Rightarrow> exn + jsval" where
  "get_prop JUndefined name = Inl TypeError"
| "get_prop JNull name = Inl TypeError"
| "get_prop (JObj props) name =
     (case map_of props name of None \<Rightarrow> Inr JUndefined | Some v \<Rightarrow> Inr v)"
| "get_prop v name = Inr JUndefined"

text \<open>\<open>a || b\<close>.\<close>

definition js_or :: "jsval \<Rightarrow> jsval \<Rightarrow> jsval" where
  "js_or a b = (if truthy a then a else b)"

section \<open>Environment, fetch and responses\<close>

text \<open>
  \<open>process.env\<close>: a variable that is not set reads as \<open>undefined\<close>, here \<open>None\<close>. The
  route files read two variables:
  \<open>API_URL = process.env.NEXT_PUBLIC_API_URL || 'http://localhost:8000'\<close> and
  \<open>API_KEY = process.env.API_KEY\<close>.
\<close>

type_synonym env = "string \<Rightarrow> string option"

definition API_URL :: "env \<Rightarrow> string" where
  "API_URL e =
     (case e ''NEXT_PUBLIC_API_URL'' of
        None \<Rightarrow> ''http://localhost:8000''
      | Some u \<Rightarrow> if u = [] then ''http://localhost:8000'' else u)"

text \<open>
  The headers every handler prepares: \<open>Content-Type\<close>, and \<open>X-API-Key\<close> when
  \<open>API_KEY\<close> is truthy (set and not empty).
\<close>

definition prepare_headers :: "env \<Rightarrow> (string \<times> string) list" where
  "prepare_headers e =
     (case e ''API_KEY'' of
        None \<Rightarrow> [(''Content-Type'', ''application/json'')]
      | Some k \<Rightarrow>
          if k = [] then [(''Content-Type'', ''application/json'')]
          else [(''Content-Type'', ''application/json''), (''X-API-Key'', k)])"

text \<open>
  A call of \<open>fetch\<close>: the URL, the method, the headers, the body before
  \<open>JSON.stringify\<close> (\<open>None\<close> when the call passes no body) and the \<open>cache\<close> option.
\<close>

record fetch_request =
  fr_url :: string
  fr_method :: string
  fr_headers :: "(string \<times> string) list"
  fr_body :: "jsval option"
  fr_cache :: "string option"

text \<open>
  What \<open>fetch\<close> gives back: a rejection, or a response with its status, its status
  text and what \<open>response.json()\<close> would return (\<open>None\<close> when the body is not JSON, so
  that \<open>response.json()\<close> rejects).
\<close>

datatype fetch_result =
    NetworkError
  | Responded nat string "jsval option"

type_synonym backend = "fetch_request \<Rightarrow> fetch_result"

text \<open>\<open>response.ok\<close>: the status is in 200..299.\<close>

definition is_ok :: "nat \<Rightarrow> bool" where
  "is_ok s = (200 \<le> s \<and> s \<le> 299)"

record http_response =
  resp_status :: nat
  resp_headers :: "(string \<times> string) list"
  resp_body :: "jsval option"

definition null_body_status :: "nat \<Rightarrow> bool" where
  "null_body_status s = (s = 101 \<or> s = 103 \<or> s = 204 \<or> s = 205 \<or> s = 304)"

definition mk_json_response :: "jsval \<Rightarrow> nat \<Rightarrow> http_response" where
  "mk_json_response b s =
     \<lparr>resp_status = s, resp_headers = [(''content-type'', ''application/json'')],
      resp_body = Some b\<rparr>"

text \<open>
  \<open>NextResponse.json(body, {status})\<close> is \<open>Response.json\<close> of the Fetch standard: a
  \<open>RangeError\<close> for a status outside 200..599, a \<open>TypeError\<close> for a body on a null-body
  status. \<open>NextResponse.json(body)\<close> has status 200.
\<close>

definition NextResponse_json :: "jsval \<Rightarrow> nat \<Rightarrow> exn + http_response" where
  "NextResponse_json b s =
     (if s < 200 \<or> 599 < s then Inl RangeError
      else if null_body_status s then Inl TypeError
      else Inr (mk_json_response b s))"

text \<open>What \<open>console.error\<close> receives.\<close>

datatype log_entry =
    LogApiError nat string jsval
      \<comment> \<open>\<open>console.error('API error:', {status, statusText, data})\<close>\<close>
  | LogCaught string exn
      \<comment> \<open>\<open>console.error(label, error)\<close> in a \<open>catch\<close>\<close>

text \<open>
  One run of a handler: the response it returns, the \<open>fetch\<close> calls it made, in order,
  and what it logged.
\<close>

record handler_run =
  response :: http_response
  fetches :: "fetch_request list"
  logs :: "log_entry list"

section \<open>\<open>web/app/api/query/route.ts\<close>\<close>

text \<open>
  The request the handler forwards:
  \<open>fetch(`${API_URL}/query`, {method: 'POST', headers, body: JSON.stringify({query:
  body.query, context: body.context || {}}), cache: 'no-store'})\<close>.
\<close>

definition query_fetch_request :: "env \<Rightarrow> jsval \<Rightarrow> jsval \<Rightarrow> fetch_request" where
  "query_fetch_request e q c =
     \<lparr>fr_url = API_URL e @ ''/query'', fr_method = ''POST'',
      fr_headers = prepare_headers e,
      fr_body = Some (JObj [(''query'', q), (''context'', js_or c (JObj []))]),
      fr_cache = Some ''no-store''\<rparr>"

text \<open>
  The branch for \<open>!response.ok\<close>, shared in shape by all handlers:
  \<open>errorData = await response.json().catch(() => ({error: 'Unknown error'}))\<close>, the
  log, and \<open>NextResponse.json({error: errorData.error || fallback}, {status})\<close>.
\<close>

definition error_data :: "jsval option \<Rightarrow> jsval" where
  "error_data rbody =
     (case rbody of None \<Rightarrow> JObj [(''error'', JStr ''Unknown error'')] | Some d \<Rightarrow> d)"

definition relay_error ::
  "string \<Rightarrow> nat \<Rightarrow> string \<Rightarrow> jsval option \<Rightarrow> (exn + http_response) \<times> log_entry list" where
  "relay_error fallback st st_text rbody =
     (let errorData = error_data rbody;
          lg = [LogApiError st st_text errorData]
      in case get_prop errorData ''error'' of
           Inl ex \<Rightarrow> (Inl ex, lg)
         | Inr m \<Rightarrow>
             (NextResponse_json (JObj [(''error'', js_or m (JStr fallback))]) st, lg))"

text \<open>
  What follows \<open>await fetch(...)\<close> in every handler: the rejection is thrown, a status
  that is not ok goes to \<open>relay_error\<close>, an ok one returns
  \<open>NextResponse.json(await response.json())\<close>.
\<close>

definition after_fetch ::
  "string \<Rightarrow> fetch_result \<Rightarrow> (exn + http_response) \<times> log_entry list" where
  "after_fetch fallback res =
     (case res of
        NetworkError \<Rightarrow> (Inl FetchFailed, [])
      | Responded st st_text rbody \<Rightarrow>
          if \<not> is_ok st then relay_error fallback st st_text rbody
          else (case rbody of
                  None \<Rightarrow> (Inl SyntaxError, [])
                | Some data \<Rightarrow> (NextResponse_json data 200, [])))"

text \<open>The body of the \<open>try\<close> block of \<open>POST\<close>; the argument is what \<open>request.json()\<close>
  returns, \<open>None\<close> when it throws.\<close>

definition query_try ::
  "env \<Rightarrow> backend \<Rightarrow> jsval option
     \<Rightarrow> (exn + http_response) \<times> fetch_request list \<times> log_entry list" where
  "query_try e be parsed =
     (case parsed of
        None \<Rightarrow> (Inl SyntaxError, [], [])
      | Some body \<Rightarrow>
          (case get_prop body ''query'' of
             Inl ex \<Rightarrow> (Inl ex, [], [])
           | Inr q \<Rightarrow>
               if \<not> truthy q
               then (NextResponse_json (JObj [(''error'', JStr ''Query is required'')]) 400,
                     [], [])
               else (case get_prop body ''context'' of
                       Inl ex \<Rightarrow> (Inl ex, [], [])
                     | Inr c \<Rightarrow>
                         (let req = query_fetch_request e q c;
                              (r, lg) = after_fetch ''Error processing query'' (be req)
                          in (r, [req], lg)))))"

text \<open>
  The \<open>catch\<close> of every handler: log, and
  \<open>NextResponse.json({error: 'Internal server error'}, {status: 500})\<close>.
\<close>

definition catch_all ::
  "string \<Rightarrow> (exn + http_response) \<times> fetch_request list \<times> log_entry list \<Rightarrow> handler_run" where
  "catch_all label t =
     (case t of
        (Inr r, fs, lg) \<Rightarrow> \<lparr>response = r, fetches = fs, logs = lg\<rparr>
      | (Inl ex, fs, lg) \<Rightarrow>
          \<lparr>response = mk_json_response (JObj [(''error'', JStr ''Internal server error'')]) 500,
           fetches = fs, logs = lg @ [LogCaught label ex]\<rparr>)"

definition query_POST :: "env \<Rightarrow> backend \<Rightarrow> jsval option \<Rightarrow> handler_run" where
  "query_POST e be parsed = catch_all ''Error processing query:'' (query_try e be parsed)"

text \<open>
  \<open>OPTIONS()\<close> takes no argument and returns
  \<open>new NextResponse(null, {status: 200, headers: {...}})\<close>.
\<close>

definition query_OPTIONS :: http_response where
  "query_OPTIONS =
     \<lparr>resp_status = 200,
      resp_headers = [(''Access-Control-Allow-Origin'', ''*''),
                      (''Access-Control-Allow-Methods'', ''POST, OPTIONS''),
                      (''Access-Control-Allow-Headers'', ''Content-Type, Authorization'')],
      resp_body = None\<rparr>"

section \<open>\<open>web/app/api/bookings/route.ts\<close>\<close>

definition bookings_requiredFields :: "string list" where
  "bookings_requiredFields = [''dj_name'', ''date'', ''time'', ''hours'', ''venue'']"

text \<open>
  The loop \<open>for (const field of requiredFields) if (!body[field]) return ...\<close>: the
  first field whose value is falsy, \<open>None\<close> when the loop runs to its end.
\<close>

fun first_missing :: "jsval \<Rightarrow> string list \<Rightarrow> exn + string option" where
  "first_missing body [] = Inr None"
| "first_missing body (field # rest) =
     (case get_prop body field of
        Inl ex \<Rightarrow> Inl ex
      | Inr v \<Rightarrow> if \<not> truthy v then Inr (Some field) else first_missing body rest)"

definition bookings_fetch_request :: "env \<Rightarrow> jsval \<Rightarrow> fetch_request" where
  "bookings_fetch_request e body =
     \<lparr>fr_url = API_URL e @ ''/bookings'', fr_method = ''POST'',
      fr_headers = prepare_headers e, fr_body = Some body, fr_cache = None\<rparr>"

definition bookings_try ::
  "env \<Rightarrow> backend \<Rightarrow> jsval option
     \<Rightarrow> (exn + http_response) \<times> fetch_request list \<times> log_entry list" where
  "bookings_try e be parsed =
     (case parsed of
        None \<Rightarrow> (Inl SyntaxError, [], [])
      | Some body \<Rightarrow>
          (case first_missing body bookings_requiredFields of
             Inl ex \<Rightarrow> (Inl ex, [], [])
           | Inr (Some field) \<Rightarrow>
               (NextResponse_json (JObj [(''error'', JStr (field @ '' is required''))]) 400,
                [], [])
           | Inr None \<Rightarrow>
               (let req = bookings_fetch_request e body;
                    (r, lg) = after_fetch ''Error creating booking'' (be req)
                in (r, [req], lg))))"

definition bookings_POST :: "env \<Rightarrow> backend \<Rightarrow> jsval option \<Rightarrow> handler_run" where
  "bookings_POST e be parsed = catch_all ''Error creating booking:'' (bookings_try e be parsed)"

definition bookings_OPTIONS :: http_response where
  "bookings_OPTIONS =
     \<lparr>resp_status = 200,
      resp_headers = [(''Access-Control-Allow-Origin'', ''*''),
                      (''Access-Control-Allow-Methods'', ''POST, OPTIONS''),
                      (''Access-Control-Allow-Headers'', ''Content-Type, Authorization'')],
      resp_body = None\<rparr>"

section \<open>\<open>web/app/api/djs/route.ts\<close>\<close>

text \<open>
  \<open>encodeURIComponent\<close> on the UTF-8 bytes of a string: the unreserved characters
  \<open>A-Z a-z 0-9 - _ . ! ~ * ' ( )\<close> stay, every other byte becomes \<open>%XX\<close> with upper-case
  hexadecimal digits. (It throws on a lone surrogate only, which
  \<open>URLSearchParams\<close> never returns.)
\<close>

definition unreserved :: "char \<Rightarrow> bool" where
  "unreserved c =
     (c \<in> set (''ABCDEFGHIJKLMNOPQRSTUVWXYZabcdefghijklmnopqrstuvwxyz0123456789-_.!~*()''
               @ [CHR 0x27]))"

definition hex_digit :: "nat \<Rightarrow> char" where
  "hex_digit n = ''0123456789ABCDEF'' ! (n mod 16)"

definition percent_encode :: "char \<Rightarrow> string" where
  "percent_encode c =
     [CHR ''%'', hex_digit ((of_char c :: nat) div 16), hex_digit ((of_char c :: nat) mod 16)]"

definition encodeURIComponent :: "string \<Rightarrow> string" where
  "encodeURIComponent s = concat (map (\<lambda>c. if unreserved c then [c] else percent_encode c) s)"

text \<open>\<open>s.endsWith(t)\<close> and \<open>s.slice(0, -1)\<close>.\<close>

definition js_endsWith :: "string \<Rightarrow> string \<Rightarrow> bool" where
  "js_endsWith s t = (length t \<le> length s \<and> drop (length s - length t) s = t)"

definition js_slice_0_m1 :: "string \<Rightarrow> string" where
  "js_slice_0_m1 s = take (length s - 1) s"

text \<open>
  \<open>request.nextUrl.searchParams\<close> is the list of the URL's name/value pairs, decoded;
  \<open>searchParams.get(name)\<close> is the first value of that name, or \<open>null\<close>.
\<close>

type_synonym searchParams = "(string \<times> string) list"

definition searchParams_get :: "searchParams \<Rightarrow> string \<Rightarrow> string option" where
  "searchParams_get sp name = map_of sp name"

text \<open>\<open>if (v) queryString += `${name}=${encodeURIComponent(v)}&`\<close>.\<close>

definition add_param :: "string \<Rightarrow> string option \<Rightarrow> string \<Rightarrow> string" where
  "add_param name v queryString =
     (case v of
        None \<Rightarrow> queryString
      | Some s \<Rightarrow>
          if s = [] then queryString
          else queryString @ name @ ''='' @ encodeURIComponent s @ ''&'')"

definition djs_queryString :: "searchParams \<Rightarrow> string" where
  "djs_queryString sp =
     (let genres = searchParams_get sp ''genres'';
          minRating = searchParams_get sp ''minRating'';
          availability = searchParams_get sp ''availability'';
          q1 = add_param ''genres'' genres [];
          q2 = add_param ''min_rating'' minRating q1;
          q3 = add_param ''availability'' availability q2
      in if js_endsWith q3 ''&'' then js_slice_0_m1 q3 else q3)"

definition djs_url :: "env \<Rightarrow> searchParams \<Rightarrow> string" where
  "djs_url e sp =
     (let queryString = djs_queryString sp
      in API_URL e @ ''/djs'' @ (if queryString \<noteq> [] then ''?'' @ queryString else []))"

definition djs_fetch_request :: "env \<Rightarrow> searchParams \<Rightarrow> fetch_request" where
  "djs_fetch_request e sp =
     \<lparr>fr_url = djs_url e sp, fr_method = ''GET'', fr_headers = prepare_headers e,
      fr_body = None, fr_cache = Some ''no-store''\<rparr>"

definition djs_GET :: "env \<Rightarrow> backend \<Rightarrow> searchParams \<Rightarrow> handler_run" where
  "djs_GET e be sp =
     catch_all ''Error fetching DJs:''
       (let req = djs_fetch_request e sp;
            (r, lg) = after_fetch ''Error fetching DJs'' (be req)
        in (r, [req], lg))"

definition djs_OPTIONS :: http_response where
  "djs_OPTIONS =
     \<lparr>resp_status = 200,
      resp_headers = [(''Access-Control-Allow-Origin'', ''*''),
                      (''Access-Control-Allow-Methods'', ''GET, OPTIONS''),
                      (''Access-Control-Allow-Headers'', ''Content-Type, Authorization'')],
      resp_body = None\<rparr>"

section \<open>\<open>web/app/api/events/route.ts\<close>\<close>

definition events_OPTIONS :: http_response where
  "events_OPTIONS =
     \<lparr>resp_status = 200,
      resp_headers = [(''Access-Control-Allow-Origin'', ''*''),
                      (''Access-Control-Allow-Methods'', ''GET, POST, OPTIONS''),
                      (''Access-Control-Allow-Headers'', ''Content-Type, Authorization'')],
      resp_body = None\<rparr>"

section \<open>Preflight requests\<close>

text \<open>
  The framework calls the \<open>OPTIONS\<close> export of the route file the path names. The
  export reads neither the request (its origin, its other headers) nor the
  environment.
\<close>

datatype route = QueryRoute | DjsRoute | EventsRoute | BookingsRoute

record preflight =
  pf_origin :: "string option"
  pf_headers :: "(string \<times> string) list"

definition handle_OPTIONS :: "env \<Rightarrow> route \<Rightarrow> preflight \<Rightarrow> http_response" where
  "handle_OPTIONS e rt rq =
     (case rt of
        QueryRoute \<Rightarrow> query_OPTIONS
      | DjsRoute \<Rightarrow> djs_OPTIONS
      | EventsRoute \<Rightarrow> events_OPTIONS
      | BookingsRoute \<Rightarrow> bookings_OPTIONS)"

text \<open>\<open>headers.get(name)\<close> on a response.\<close>

definition header :: "http_response \<Rightarrow> string \<Rightarrow> string option" where
  "header r name = map_of (resp_headers r) name"

section \<open>The home page: \<open>handleSubmit\<close>\<close>

text \<open>
  \<open>!query.trim()\<close>: the query holds white space and line terminators only. On UTF-8
  bytes these are the ASCII ones (tab, line feed, vertical tab, form feed, carriage
  return, space), U+00A0 (\<open>C2 A0\<close>), U+1680 (\<open>E1 9A 80\<close>), U+2000 to U+200A, U+2028,
  U+2029, U+202F (\<open>E2 80 ..\<close>), U+205F (\<open>E2 81 9F\<close>), U+3000 (\<open>E3 80 80\<close>) and U+FEFF
  (\<open>EF BB BF\<close>).
\<close>

definition ws1 :: "char \<Rightarrow> bool" where
  "ws1 a = ((of_char a :: nat) \<in> {9, 10, 11, 12, 13, 32})"












section \<open>The orchestration backend behind \<open>${API_URL}/query\<close>\<close>

text \<open>
  Modelled from the spec: the backend the route handlers forward to (\<open>api.py\<close>,
  \<open>agent_graph.py\<close> and \<open>agents/\<close> in the README's project tree) is not among the
  source files. Every definition of this section follows sections 3 to 8 of the
  specification; what the specification leaves open (what a responder answers, how
  contents are summarised) is a field of \<open>config\<close>.
\<close>

text \<open>Modelled from the spec: the responder kinds of section 4.2, and the default
  general-purpose responder of sections 3 and 4.1.\<close>

datatype responder_id =
  Booking | Events | Playlist | Rating | Content | Social | Artist | Analytics | General

text \<open>Modelled from the spec: the ids as \<open>agents_used\<close> lists them (section 8:
  \<open>agents_used = ["booking"]\<close>).\<close>

fun responder_name :: "responder_id \<Rightarrow> string" where
  "responder_name Booking = ''booking''"
| "responder_name Events = ''events''"
| "responder_name Playlist = ''playlist''"
| "responder_name Rating = ''rating''"
| "responder_name Content = ''content''"
| "responder_name Social = ''social''"
| "responder_name Artist = ''artist''"
| "responder_name Analytics = ''analytics''"
| "responder_name General = ''general''"

text \<open>Modelled from the spec: Query (section 3): raw text, optional context, optional
  provider preference, cache-bypass flag (here \<open>q_use_cache\<close>, its negation, as the
  request boundary names it).\<close>

record Query =
  q_text :: string
  q_context :: jsval
  q_provider_preference :: "string option"
  q_use_cache :: bool

text \<open>Modelled from the spec: the status of a ResponderResult (section 3).\<close>

datatype result_status = Succeeded | Failed | TimedOut

text \<open>Modelled from the spec: ResponderResult (section 3): responder id, status,
  content (absent on failure), latency, error detail (absent on success).\<close>

record ResponderResult =
  rr_id :: responder_id
  rr_status :: result_status
  rr_content :: "string option"
  rr_latency :: nat
  rr_error :: "string option"

text \<open>Modelled from the spec: what one call of a responder's \<open>handle(query, context)\<close>
  does before any timeout is applied: it completes with a content, or fails with an
  error detail, after a latency in milliseconds.\<close>

datatype raw_outcome =
    Completed string nat
  | Errored string nat

text \<open>Modelled from the spec: SynthesizedResponse (section 3): final text, the
  responders that contributed, timestamp, cache-hit flag.\<close>

record SynthesizedResponse =
  syn_text :: string
  syn_agents :: "responder_id list"
  syn_timestamp :: nat
  syn_cache_hit :: bool

text \<open>Modelled from the spec: CacheEntry (section 3): the response and its expiry
  timestamp, in seconds.\<close>

record CacheEntry =
  ce_response :: SynthesizedResponse
  ce_expiry :: nat

text \<open>Modelled from the spec: the static responder metadata the Router consults
  (section 4.1): a responder, the keywords of its category (in lower case) and the
  breadth of its declared domain (smaller is narrower).\<close>

record responder_meta =
  rm_id :: responder_id
  rm_keywords :: "string list"
  rm_breadth :: nat

text \<open>Modelled from the spec: the configuration surface of section 6 and the parts the
  specification names without fixing them (what a responder answers, how contents are
  summarised). Defaults of the specification: threshold 0.3, epsilon 0.05, per-call
  timeout 10 s, per-request deadline 25 s, TTL 24 h. The cache enable flag of section
  6 is taken as set: the pipeline of sections 2 and 4.5 has the cache.\<close>

record config =
  cfg_registry :: "responder_meta list"
  cfg_threshold :: rat
  cfg_epsilon :: rat
  cfg_handle :: "responder_id \<Rightarrow> string \<Rightarrow> jsval \<Rightarrow> raw_outcome"
  cfg_per_call_timeout :: nat
  cfg_deadline :: nat
  cfg_summarize :: "string list \<Rightarrow> string"
  cfg_ttl :: nat
  cfg_max_query_length :: nat
  cfg_providers_configured :: bool

subsection \<open>Text normalisation (section 3)\<close>

text \<open>Modelled from the spec: case folding (section 3), on ASCII letters.\<close>

definition lower_ascii :: "char \<Rightarrow> char" where
  "lower_ascii c =
     (case map_of (zip ''ABCDEFGHIJKLMNOPQRSTUVWXYZ'' ''abcdefghijklmnopqrstuvwxyz'') c of
        None \<Rightarrow> c
      | Some l \<Rightarrow> l)"

text \<open>Modelled from the spec: trimming and collapsing white space (section 3): the
  words of a text between runs of ASCII white space; the first argument is the word
  being read.\<close>

fun split_ws :: "string \<Rightarrow> string \<Rightarrow> string list" where
  "split_ws w [] = (if w = [] then [] else [w])"
| "split_ws w (c # cs) =
     (if ws1 c then (if w = [] then split_ws [] cs else w # split_ws [] cs)
      else split_ws (w @ [c]) cs)"

text \<open>Modelled from the spec: the words of a query text after case folding.\<close>

definition query_words :: "string \<Rightarrow> string list" where
  "query_words t = split_ws [] (map lower_ascii t)"

text \<open>Modelled from the spec: the words joined by single spaces.\<close>

fun join_sp :: "string list \<Rightarrow> string" where
  "join_sp [] = []"
| "join_sp [w] = w"
| "join_sp (w # ws) = w @ '' '' @ join_sp ws"

text \<open>Modelled from the spec: normalisation of a query text (section 3): case-fold,
  trim, collapse white space.\<close>

definition normalize :: "string \<Rightarrow> string" where
  "normalize t = join_sp (query_words t)"

subsection \<open>Router (section 4.1)\<close>

text \<open>Modelled from the spec: the tie-break. Of two scored responders within epsilon of
  each other the one with the narrower declared domain comes first; otherwise the
  one with the higher score.\<close>

definition precedes ::
  "config \<Rightarrow> responder_meta \<times> rat \<Rightarrow> responder_meta \<times> rat \<Rightarrow> bool" where
  "precedes cfg x y =
     (if \<bar>snd x - snd y\<bar> \<le> cfg_epsilon cfg then rm_breadth (fst x) \<le> rm_breadth (fst y)
      else snd y < snd x)"

text \<open>Modelled from the spec: the ordered classification is built by inserting each
  scored responder before the first one it precedes.\<close>

fun insert_ranked ::
  "config \<Rightarrow> responder_meta \<times> rat \<Rightarrow> (responder_meta \<times> rat) list
     \<Rightarrow> (responder_meta \<times> rat) list" where
  "insert_ranked cfg x [] = [x]"
| "insert_ranked cfg x (y # ys) =
     (if precedes cfg x y then x # y # ys else y # insert_ranked cfg x ys)"

text \<open>Modelled from the spec: keyword scoring per responder category (section 4.1), a
  function of the query and the static metadata: the share of the responder's
  keywords that occur among the words of the query; 0 for a responder without
  keywords.\<close>

definition score :: "responder_meta \<Rightarrow> Query \<Rightarrow> rat" where
  "score m q =
     (if rm_keywords m = [] then 0
      else of_nat (length (filter (\<lambda>k. k \<in> set (query_words (q_text q))) (rm_keywords m)))
           / of_nat (length (rm_keywords m)))"

text \<open>Modelled from the spec: \<open>classify(query) -> IntentClassification\<close>. Every
  registered responder is scored; those whose score clears the threshold are kept and
  ordered; when none does, the result is the default general responder, with
  confidence 0 (no specific match).\<close>

definition classify :: "config \<Rightarrow> Query \<Rightarrow> (responder_id \<times> rat) list" where
  "classify cfg q =
     (let scored = map (\<lambda>m. (m, score m q)) (cfg_registry cfg);
          cleared = filter (\<lambda>(m, c). cfg_threshold cfg \<le> c) scored
      in if cleared = [] then [(General, 0)]
         else map (\<lambda>(m, c). (rm_id m, c)) (foldr (insert_ranked cfg) cleared []))"

subsection \<open>Execution Engine (section 4.3)\<close>

text \<open>Modelled from the spec: the generic apology of the partial-failure policy. The
  specification fixes no wording.\<close>

definition generic_apology :: string where
  "generic_apology = ''Sorry, I could not process your request right now. Please try again later.''"

text \<open>Modelled from the spec: one responder invocation under the per-call timeout
  nested inside the per-request deadline: a call that needs longer is recorded as
  TimedOut, an execution error as Failed.\<close>

definition invoke :: "config \<Rightarrow> Query \<Rightarrow> nat \<Rightarrow> responder_id \<Rightarrow> ResponderResult" where
  "invoke cfg q deadline i =
     (let limit = min (cfg_per_call_timeout cfg) deadline;
          timed_out = \<lparr>rr_id = i, rr_status = TimedOut, rr_content = None,
                       rr_latency = limit, rr_error = Some ''timed out''\<rparr>
      in case cfg_handle cfg i (q_text q) (q_context q) of
           Completed content latency \<Rightarrow>
             if limit < latency then timed_out
             else \<lparr>rr_id = i, rr_status = Succeeded, rr_content = Some content,
                   rr_latency = latency, rr_error = None\<rparr>
         | Errored detail latency \<Rightarrow>
             if limit < latency then timed_out
             else \<lparr>rr_id = i, rr_status = Failed, rr_content = None,
                   rr_latency = latency, rr_error = Some detail\<rparr>)"

text \<open>Modelled from the spec: \<open>run(plan, query, deadline) -> list<ResponderResult>\<close>, the
  results in the plan's order; when no responder of the plan succeeded, a single
  synthetic Failed result wrapping the generic apology.\<close>

definition run :: "config \<Rightarrow> responder_id list \<Rightarrow> Query \<Rightarrow> nat \<Rightarrow> ResponderResult list" where
  "run cfg plan q deadline =
     (let results = map (invoke cfg q deadline) plan
      in if list_ex (\<lambda>r. rr_status r = Succeeded) results then results
         else [\<lparr>rr_id = General, rr_status = Failed, rr_content = Some generic_apology,
                 rr_latency = 0, rr_error = Some ''all responders failed''\<rparr>])"

subsection \<open>Synthesizer (section 4.4)\<close>

text \<open>Modelled from the spec: the content of a result, empty when it has none.\<close>

definition content_of :: "ResponderResult \<Rightarrow> string" where
  "content_of r = (case rr_content r of None \<Rightarrow> [] | Some t \<Rightarrow> t)"

text \<open>Modelled from the spec: \<open>merge(results) -> SynthesizedResponse\<close>. The results
  are filtered to the Succeeded ones, in the plan's order; their ids are recorded
  verbatim, and their contents are summarised, the Analytics responder's never.
  Without a Succeeded result the text is what the Failed results wrap (the engine's
  apology), and no responder is listed.\<close>

definition merge :: "config \<Rightarrow> nat \<Rightarrow> ResponderResult list \<Rightarrow> SynthesizedResponse" where
  "merge cfg now results =
     (let succeeded = filter (\<lambda>r. rr_status r = Succeeded) results
      in if succeeded = []
         then \<lparr>syn_text = concat (map content_of
                                      (filter (\<lambda>r. rr_status r = Failed) results)),
               syn_agents = [], syn_timestamp = now, syn_cache_hit = False\<rparr>
         else \<lparr>syn_text = cfg_summarize cfg
                            (map content_of (filter (\<lambda>r. rr_id r \<noteq> Analytics) succeeded)),
               syn_agents = map rr_id succeeded, syn_timestamp = now,
               syn_cache_hit = False\<rparr>)"

subsection \<open>Cache (section 4.5)\<close>

text \<open>Modelled from the spec: Fingerprint (section 3), the digest of the normalised
  text, the context and the active responder set; the digest is taken injective, so
  the fingerprint is the triple itself.\<close>

type_synonym fingerprint = "string \<times> jsval \<times> responder_id list"

text \<open>Modelled from the spec: the fingerprint of a query under a configuration.\<close>

definition fingerprint :: "config \<Rightarrow> Query \<Rightarrow> fingerprint" where
  "fingerprint cfg q = (normalize (q_text q), q_context q, map rm_id (cfg_registry cfg))"

text \<open>Modelled from the spec: the Cache (section 2) maps a fingerprint to its entry.\<close>

type_synonym cache = "fingerprint \<Rightarrow> CacheEntry option"

text \<open>Modelled from the spec: \<open>get(fingerprint) -> SynthesizedResponse | miss\<close> at a
  time in seconds; an expired entry is a miss and is evicted by the check.\<close>

definition get :: "cache \<Rightarrow> nat \<Rightarrow> fingerprint \<Rightarrow> SynthesizedResponse option \<times> cache" where
  "get c now fp =
     (case c fp of
        None \<Rightarrow> (None, c)
      | Some en \<Rightarrow> if now < ce_expiry en then (Some (ce_response en), c)
                   else (None, c(fp := None)))"

text \<open>Modelled from the spec: \<open>put(fingerprint, response, ttl)\<close>: the entry replaces any
  earlier one and expires \<open>ttl\<close> seconds after it was stored.\<close>

definition put :: "cache \<Rightarrow> nat \<Rightarrow> fingerprint \<Rightarrow> SynthesizedResponse \<Rightarrow> nat \<Rightarrow> cache" where
  "put c now fp r ttl = c(fp \<mapsto> \<lparr>ce_response = r, ce_expiry = now + ttl\<rparr>)"

subsection \<open>The pipeline (section 2) and the request boundary (section 6)\<close>

text \<open>Modelled from the spec: the pipeline without the cache (section 2): Router,
  Execution Engine, Synthesizer. The dispatch plan is the classification's responders,
  in its order.\<close>

definition fresh_answer :: "config \<Rightarrow> nat \<Rightarrow> Query \<Rightarrow> SynthesizedResponse" where
  "fresh_answer cfg now q =
     merge cfg now (run cfg (map fst (classify cfg q)) q (cfg_deadline cfg))"

text \<open>Modelled from the spec: Query, Cache (consulted first, a hit short-circuits),
  Router, Execution Engine, Synthesizer, Cache (store), Answer. A bypassing query
  neither reads nor writes.\<close>

definition answer ::
  "config \<Rightarrow> cache \<Rightarrow> nat \<Rightarrow> Query \<Rightarrow> SynthesizedResponse \<times> cache" where
  "answer cfg c now q =
     (let fp = fingerprint cfg q;
          (hit, c1) = (if q_use_cache q then get c now fp else (None, c))
      in case hit of
           Some r \<Rightarrow> (r\<lparr>syn_cache_hit := True\<rparr>, c1)
         | None \<Rightarrow>
             (let r = fresh_answer cfg now q
              in (r, if q_use_cache q then put c1 now fp r (cfg_ttl cfg) else c1)))"

text \<open>Modelled from the spec: the body of \<open>POST /query\<close> (section 6): \<open>query\<close> a
  required, length-bounded string; \<open>context\<close>, \<open>provider_preference\<close> and \<open>use_cache\<close>
  (default true) optional. \<open>None\<close> is InputInvalid.\<close>

definition parse_query :: "config \<Rightarrow> jsval option \<Rightarrow> Query option" where
  "parse_query cfg b =
     (case b of
        Some (JObj props) \<Rightarrow>
          (case map_of props ''query'' of
             Some (JStr s) \<Rightarrow>
               if s = [] \<or> cfg_max_query_length cfg < length s then None
               else Some \<lparr>q_text = s,
                          q_context = (case map_of props ''context'' of
                                         None \<Rightarrow> JObj [] | Some c \<Rightarrow> c),
                          q_provider_preference =
                            (case map_of props ''provider_preference'' of
                               Some (JStr p) \<Rightarrow> Some p | _ \<Rightarrow> None),
                          q_use_cache = (case map_of props ''use_cache'' of
                                           Some (JBool u) \<Rightarrow> u | _ \<Rightarrow> True)\<rparr>
           | _ \<Rightarrow> None)
      | _ \<Rightarrow> None)"

text \<open>Modelled from the spec: a time in seconds as the decimal string of the
  \<open>timestamp\<close> field.\<close>

fun show_nat :: "nat \<Rightarrow> string" where
  "show_nat n = (if n < 10 then [hex_digit n] else show_nat (n div 10) @ [hex_digit (n mod 10)])"

declare show_nat.simps [simp del]

text \<open>Modelled from the spec: the response body
  \<open>{response, agents_used, timestamp, cache_hit}\<close>.\<close>

definition render :: "SynthesizedResponse \<Rightarrow> jsval" where
  "render r =
     JObj [(''response'', JStr (syn_text r)),
           (''agents_used'', JArr (map (\<lambda>i. JStr (responder_name i)) (syn_agents r))),
           (''timestamp'', JStr (show_nat (syn_timestamp r))),
           (''cache_hit'', JBool (syn_cache_hit r))]"

text \<open>Modelled from the spec: the backend's \<open>POST /query\<close>: 4xx for malformed input
  (here 422), 5xx when the degraded-answer path cannot run because no provider is
  configured (here 503), and 200 with the synthesized response otherwise. The error
  bodies carry a \<open>detail\<close> field.\<close>

definition backend_POST_query ::
  "config \<Rightarrow> cache \<Rightarrow> nat \<Rightarrow> fetch_request \<Rightarrow> fetch_result \<times> cache" where
  "backend_POST_query cfg c now rq =
     (case parse_query cfg (fr_body rq) of
        None \<Rightarrow>
          (Responded 422 ''Unprocessable Entity''
             (Some (JObj [(''detail'', JStr ''invalid query'')])), c)
      | Some q \<Rightarrow>
          if \<not> cfg_providers_configured cfg
          then (Responded 503 ''Service Unavailable''
                  (Some (JObj [(''detail'', JStr ''no provider configured'')])), c)
          else (let (r, c1) = answer cfg c now q
                in (Responded 200 ''OK'' (Some (render r)), c1)))"

text \<open>Modelled from the spec: one request through the route handler and the backend
  behind it, with the cache the backend leaves.\<close>

definition serve_query ::
  "env \<Rightarrow> config \<Rightarrow> cache \<Rightarrow> nat \<Rightarrow> jsval option \<Rightarrow> handler_run \<times> cache" where
  "serve_query e cfg c now parsed =
     (let r = query_POST e (\<lambda>rq. fst (backend_POST_query cfg c now rq)) parsed
      in (r, foldl (\<lambda>c1 rq. snd (backend_POST_query cfg c1 now rq)) c (fetches r)))"

section \<open>The claims' words, for comparison with the code\<close>

text \<open>
  The query string of \<open>GET /api/djs\<close> as the claim words it: of \<open>genres\<close>, \<open>minRating\<close>
  (renamed \<open>min_rating\<close>) and \<open>availability\<close>, in this order, those present and not empty,
  each as \<open>name=value\<close> with the value URI-encoded, joined by \<open>&\<close>, after a \<open>?\<close> when there
  is at least one.
\<close>

definition djs_renames :: "(string \<times> string) list" where
  "djs_renames =
     [(''genres'', ''genres''), (''minRating'', ''min_rating''),
      (''availability'', ''availability'')]"

definition forwarded_params :: "searchParams \<Rightarrow> (string \<times> string) list" where
  "forwarded_params sp =
     concat (map (\<lambda>(incoming, outgoing).
                    case map_of sp incoming of
                      None \<Rightarrow> []
                    | Some v \<Rightarrow> if v = [] then [] else [(outgoing, v)])
                 djs_renames)"

fun join_amp :: "string list \<Rightarrow> string" where
  "join_amp [] = []"
| "join_amp [p] = p"
| "join_amp (p # ps) = p @ ''&'' @ join_amp ps"

definition spec_djs_query :: "searchParams \<Rightarrow> string" where
  "spec_djs_query sp =
     (let ps = map (\<lambda>(n, v). n @ ''='' @ encodeURIComponent v) (forwarded_params sp)
      in if ps = [] then [] else ''?'' @ join_amp ps)"


text \<open>The first of the fields whose value in the body is absent or falsy.\<close>

definition prop_or_undefined :: "jsval \<Rightarrow> string \<Rightarrow> jsval" where
  "prop_or_undefined body name = (case get_prop body name of Inl _ \<Rightarrow> JUndefined | Inr v \<Rightarrow> v)"

definition first_absent_or_falsy :: "jsval \<Rightarrow> string list \<Rightarrow> string option" where
  "first_absent_or_falsy body names =
     find (\<lambda>f. \<not> truthy (prop_or_undefined body f)) names"

text \<open>The query a request body with the string \<open>s\<close> as \<open>query\<close> and \<open>c\<close> as \<open>context\<close>
  becomes behind the route handler.\<close>

definition boundary_query :: "string \<Rightarrow> jsval \<Rightarrow> Query" where
  "boundary_query s c =
     \<lparr>q_text = s, q_context = js_or c (JObj []), q_provider_preference = None,
      q_use_cache = True\<rparr>"

section \<open>Sample inputs\<close>

text \<open>A configuration with the specification's defaults, two registered responders
  and the given responder behaviour.\<close>

definition sample_config :: "(responder_id \<Rightarrow> string \<Rightarrow> jsval \<Rightarrow> raw_outcome) \<Rightarrow> config" where
  "sample_config handle =
     \<lparr>cfg_registry =
        [\<lparr>rm_id = Content, rm_keywords = [''article'', ''news'', ''story'', ''dj''],
          rm_breadth = 5\<rparr>,
         \<lparr>rm_id = Booking, rm_keywords = [''book'', ''dj''], rm_breadth = 1\<rparr>],
      cfg_threshold = 3 / 10, cfg_epsilon = 1 / 20, cfg_handle = handle,
      cfg_per_call_timeout = 10000, cfg_deadline = 25000,
      cfg_summarize = concat, cfg_ttl = 86400,
      cfg_max_query_length = 1000, cfg_providers_configured = True\<rparr>"


definition failing_cfg :: config where
  "failing_cfg = sample_config (\<lambda>i t c. if i = Booking then Errored ''provider unavailable'' 800
                                         else Completed ''late'' 60000)"


section \<open>Facts about the handlers\<close>

lemma get_prop_total:
  "body \<noteq> JNull \<Longrightarrow> body \<noteq> JUndefined \<Longrightarrow>
   get_prop body name = Inr (prop_or_undefined body name)"
  by (cases body) (simp_all add: prop_or_undefined_def split: option.splits)

lemma first_missing_find:
  "body \<noteq> JNull \<Longrightarrow> body \<noteq> JUndefined \<Longrightarrow>
   first_missing body names = Inr (first_absent_or_falsy body names)"
  by (induction names) (simp_all add: first_absent_or_falsy_def get_prop_total)

lemma NextResponse_json_400: "NextResponse_json b 400 = Inr (mk_json_response b 400)"
  by (simp add: NextResponse_json_def null_body_status_def)

lemma NextResponse_json_200: "NextResponse_json b 200 = Inr (mk_json_response b 200)"
  by (simp add: NextResponse_json_def null_body_status_def)

lemma catch_all_fetches: "fetches (catch_all label (r, fs, lg)) = fs"
  by (cases r) (simp_all add: catch_all_def)

text \<open>
  A body that is not JSON, or is the JSON value \<open>null\<close>, makes the \<open>try\<close> block throw
  before any field is tested: both handlers answer 500 from their \<open>catch\<close>, without a
  \<open>fetch\<close>.
\<close>

lemma query_POST_no_object:
  "parsed = None \<or> parsed = Some JNull \<Longrightarrow>
   resp_status (response (query_POST e be parsed)) = 500 \<and> fetches (query_POST e be parsed) = []"
  by (auto simp: query_POST_def query_try_def catch_all_def mk_json_response_def)

lemma bookings_POST_no_object:
  "parsed = None \<or> parsed = Some JNull \<Longrightarrow>
   resp_status (response (bookings_POST e be parsed)) = 500 \<and>
   fetches (bookings_POST e be parsed) = []"
  by (auto simp: bookings_POST_def bookings_try_def bookings_requiredFields_def catch_all_def
      mk_json_response_def)

subsection \<open>Bookings: the required fields\<close>

text \<open>
  Claim C8, as stated, fails: for a body that is the JSON value \<open>null\<close> all five fields
  are absent, yet \<open>body[field]\<close> throws and the \<open>catch\<close> answers 500, not 400.
\<close>

theorem bookings_POST_null_body:
  "first_absent_or_falsy JNull bookings_requiredFields = Some ''dj_name'' \<and>
   response (bookings_POST Map.empty (\<lambda>_. NetworkError) (Some JNull)) =
     \<lparr>resp_status = 500, resp_headers = [(''content-type'', ''application/json'')],
      resp_body = Some (JObj [(''error'', JStr ''Internal server error'')])\<rparr> \<and>
   fetches (bookings_POST Map.empty (\<lambda>_. NetworkError) (Some JNull)) = []"
  by (simp add: first_absent_or_falsy_def bookings_requiredFields_def prop_or_undefined_def
      bookings_POST_def bookings_try_def catch_all_def mk_json_response_def)

text \<open>
  Claim C8, amended. For a \<open>POST /api/bookings\<close> whose body parsed to a JSON value other
  than \<open>null\<close>: when one of \<open>dj_name\<close>, \<open>date\<close>, \<open>time\<close>, \<open>hours\<close>, \<open>venue\<close> is absent or falsy,
  the handler answers 400 with \<open>"<field> is required"\<close> for the first such field in
  this order, and calls \<open>fetch\<close> not at all. The test is falsiness: \<open>hours\<close> equal to 0,
  after truthy \<open>dj_name\<close>, \<open>date\<close> and \<open>time\<close>, is answered \<open>"hours is required"\<close>.
\<close>

theorem bookings_POST_required:
  assumes "body \<noteq> JNull" and "body \<noteq> JUndefined"
  shows "(first_absent_or_falsy body bookings_requiredFields = Some f \<longrightarrow>
            bookings_POST e be (Some body) =
              \<lparr>response = mk_json_response (JObj [(''error'', JStr (f @ '' is required''))]) 400,
               fetches = [], logs = []\<rparr>) \<and>
         (truthy (prop_or_undefined body ''dj_name'') \<and>
          truthy (prop_or_undefined body ''date'') \<and>
          truthy (prop_or_undefined body ''time'') \<and>
          prop_or_undefined body ''hours'' = JNum 0 \<longrightarrow>
            bookings_POST e be (Some body) =
              \<lparr>response = mk_json_response (JObj [(''error'', JStr ''hours is required'')]) 400,
               fetches = [], logs = []\<rparr>)"
proof -
  have general: "bookings_POST e be (Some body) =
      \<lparr>response = mk_json_response (JObj [(''error'', JStr (g @ '' is required''))]) 400,
       fetches = [], logs = []\<rparr>"
    if "first_absent_or_falsy body bookings_requiredFields = Some g" for g
    using assms that
    by (simp add: bookings_POST_def bookings_try_def first_missing_find catch_all_def
        NextResponse_json_400)
  have hours: "first_absent_or_falsy body bookings_requiredFields = Some ''hours''"
    if "truthy (prop_or_undefined body ''dj_name'')" "truthy (prop_or_undefined body ''date'')"
       "truthy (prop_or_undefined body ''time'')" "prop_or_undefined body ''hours'' = JNum 0"
    using that by (simp add: first_absent_or_falsy_def bookings_requiredFields_def)
  show ?thesis using general [of f] general [of "''hours''"] hours by auto
qed

theorem bookings_POST_required_witness:
  "bookings_POST Map.empty (\<lambda>_. NetworkError)
     (Some (JObj [(''dj_name'', JStr ''DJ Spinall''), (''date'', JStr ''2025-06-01''),
                  (''time'', JStr ''20:00''), (''hours'', JNum 0), (''venue'', JStr ''Bla'')])) =
     \<lparr>response = mk_json_response (JObj [(''error'', JStr ''hours is required'')]) 400,
      fetches = [], logs = []\<rparr> \<and>
   bookings_POST Map.empty (\<lambda>_. NetworkError)
     (Some (JObj [(''dj_name'', JStr ''DJ Spinall''), (''time'', JStr [])])) =
     \<lparr>response = mk_json_response (JObj [(''error'', JStr ''date is required'')]) 400,
      fetches = [], logs = []\<rparr>"
  using bookings_POST_required
      [of "JObj [(''dj_name'', JStr ''DJ Spinall''), (''date'', JStr ''2025-06-01''),
                 (''time'', JStr ''20:00''), (''hours'', JNum 0), (''venue'', JStr ''Bla'')]"
        "''hours''" Map.empty "\<lambda>_. NetworkError"]
    bookings_POST_required
      [of "JObj [(''dj_name'', JStr ''DJ Spinall''), (''time'', JStr [])]"
        "''date''" Map.empty "\<lambda>_. NetworkError"]
  by (simp add: first_absent_or_falsy_def bookings_requiredFields_def prop_or_undefined_def)

subsection \<open>Preflight\<close>

text \<open>
  Claim C9. An \<open>OPTIONS\<close> request to the query, djs, events or bookings route is
  answered with status 200 and the header \<open>Access-Control-Allow-Origin: *\<close>, whatever
  the request (its origin) and whatever the environment (an allowed-origins setting).
\<close>

theorem OPTIONS_allow_any_origin:
  "resp_status (handle_OPTIONS e rt rq) = 200 \<and>
   header (handle_OPTIONS e rt rq) ''Access-Control-Allow-Origin'' = Some ''*''"
  by (cases rt)
     (simp_all add: handle_OPTIONS_def header_def query_OPTIONS_def djs_OPTIONS_def
        events_OPTIONS_def bookings_OPTIONS_def)

subsection \<open>DJs: the forwarded query string\<close>

lemma hex_digit_not_amp: "hex_digit n \<noteq> CHR ''&''"
proof -
  have "n mod 16 < length ''0123456789ABCDEF''" by simp
  then have "hex_digit n \<in> set ''0123456789ABCDEF''"
    unfolding hex_digit_def by (rule nth_mem)
  then show ?thesis by auto
qed

lemma amp_reserved: "\<not> unreserved (CHR ''&'')"
  by (simp add: unreserved_def)

lemma amp_notin_encode_char:
  "CHR ''&'' \<notin> set (if unreserved c then [c] else percent_encode c)"
proof (cases "unreserved c")
  case True
  then have "c \<noteq> CHR ''&''" using amp_reserved by auto
  with True show ?thesis by simp
next
  case False
  then show ?thesis
    using hex_digit_not_amp [of "of_char c div 16"] hex_digit_not_amp [of "of_char c mod 16"]
    by (auto simp: percent_encode_def)
qed

lemma amp_notin_encode: "CHR ''&'' \<notin> set (encodeURIComponent s)"
  unfolding encodeURIComponent_def using amp_notin_encode_char by (induction s) auto

lemma encode_nonempty: "s \<noteq> [] \<Longrightarrow> encodeURIComponent s \<noteq> []"
  by (cases s) (auto simp: encodeURIComponent_def percent_encode_def)

lemma endsWith_amp: "js_endsWith (xs @ ''&'') ''&''"
  by (simp add: js_endsWith_def)

lemma slice_amp: "js_slice_0_m1 (xs @ ''&'') = xs"
  by (simp add: js_slice_0_m1_def)

lemma endsWith_nil: "\<not> js_endsWith [] ''&''"
  by (simp add: js_endsWith_def)

lemma endsWith_last: "js_endsWith s ''&'' \<longleftrightarrow> (s \<noteq> [] \<and> last s = CHR ''&'')"
  by (cases s rule: rev_cases) (simp_all add: js_endsWith_def)

lemma djs_GET_fetches: "fetches (djs_GET e be sp) = [djs_fetch_request e sp]"
  by (simp add: djs_GET_def Let_def split_beta catch_all_fetches)

lemma built_queryString:
  "add_param ''availability'' (map_of sp ''availability'')
     (add_param ''min_rating'' (map_of sp ''minRating'')
        (add_param ''genres'' (map_of sp ''genres'') [])) =
   concat (map (\<lambda>p. p @ ''&'')
             (map (\<lambda>(n, v). n @ ''='' @ encodeURIComponent v) (forwarded_params sp)))"
  by (simp add: forwarded_params_def djs_renames_def add_param_def split: option.splits)

lemma concat_amp_join:
  "concat (map (\<lambda>p. p @ ''&'') ps) = (if ps = [] then [] else join_amp ps @ ''&'')"
  by (induction ps rule: join_amp.induct) simp_all

lemma join_amp_nonempty: "ps \<noteq> [] \<Longrightarrow> [] \<notin> set ps \<Longrightarrow> join_amp ps \<noteq> []"
  by (induction ps rule: join_amp.induct) simp_all

lemma rendered_nonempty:
  "[] \<notin> set (map (\<lambda>(n, v). n @ ''='' @ encodeURIComponent v) xs)"
  by (induction xs) auto

lemma djs_queryString_join:
  "djs_queryString sp =
     join_amp (map (\<lambda>(n, v). n @ ''='' @ encodeURIComponent v) (forwarded_params sp))"
  unfolding djs_queryString_def Let_def searchParams_get_def built_queryString concat_amp_join
  by (simp add: endsWith_amp slice_amp endsWith_nil)

lemma djs_url_spec: "djs_url e sp = API_URL e @ ''/djs'' @ spec_djs_query sp"
  unfolding djs_url_def Let_def djs_queryString_join spec_djs_query_def
  using join_amp_nonempty [OF _ rendered_nonempty [of "forwarded_params sp"]]
  by auto

lemma join_amp_last:
  "ps \<noteq> [] \<Longrightarrow> \<forall>p\<in>set ps. p \<noteq> [] \<and> last p \<noteq> CHR ''&'' \<Longrightarrow>
   last (join_amp ps) \<noteq> CHR ''&''"
  by (induction ps rule: join_amp.induct) (auto simp: join_amp_nonempty)

lemma forwarded_values_nonempty: "(n, v) \<in> set (forwarded_params sp) \<Longrightarrow> v \<noteq> []"
  by (auto simp: forwarded_params_def djs_renames_def split: option.splits if_splits)

lemma rendered_last:
  assumes "v \<noteq> []"
  shows "last (n @ ''='' @ encodeURIComponent v) \<noteq> CHR ''&''"
proof -
  have ne: "encodeURIComponent v \<noteq> []" using assms by (rule encode_nonempty)
  then have "last (n @ ''='' @ encodeURIComponent v) = last (encodeURIComponent v)" by simp
  moreover have "last (encodeURIComponent v) \<in> set (encodeURIComponent v)"
    using ne by (rule last_in_set)
  ultimately show ?thesis using amp_notin_encode [of v] by auto
qed

lemma djs_no_trailing_amp: "\<not> js_endsWith (djs_queryString sp) ''&''"
proof (cases "forwarded_params sp = []")
  case True
  then show ?thesis by (simp add: djs_queryString_join endsWith_nil)
next
  case False
  let ?ps = "map (\<lambda>(n, v). n @ ''='' @ encodeURIComponent v) (forwarded_params sp)"
  have "\<forall>p\<in>set ?ps. p \<noteq> [] \<and> last p \<noteq> CHR ''&''"
    using forwarded_values_nonempty [of _ _ sp] rendered_last by fastforce
  moreover have "?ps \<noteq> []" using False by simp
  ultimately have "last (join_amp ?ps) \<noteq> CHR ''&''" by (rule join_amp_last [rotated])
  then show ?thesis by (simp add: djs_queryString_join endsWith_last)
qed

text \<open>
  Claim C10. \<open>GET /api/djs\<close> makes one \<open>fetch\<close>, to \<open>API_URL\<close>, \<open>/djs\<close> and the query
  string of the claim's words (\<open>spec_djs_query\<close>): \<open>genres\<close>, \<open>min_rating\<close> and
  \<open>availability\<close> are forwarded exactly when the incoming \<open>genres\<close>, \<open>minRating\<close> and
  \<open>availability\<close> are present and not empty, nothing else is forwarded, the values are
  URI-encoded (so that no \<open>&\<close> is left in a value), the parameters are joined by
  \<open>&\<close>, the query string has no trailing \<open>&\<close>, and the \<open>?\<close> stands only before a
  parameter.
\<close>

theorem djs_GET_forwarded_query:
  "fetches (djs_GET e be sp) = [djs_fetch_request e sp] \<and>
   fr_url (djs_fetch_request e sp) = API_URL e @ ''/djs'' @ spec_djs_query sp \<and>
   \<not> js_endsWith (djs_queryString sp) ''&'' \<and>
   CHR ''&'' \<notin> set (encodeURIComponent v) \<and>
   map_of (forwarded_params sp) ''genres'' =
     (case map_of sp ''genres'' of None \<Rightarrow> None | Some s \<Rightarrow> if s = [] then None else Some s) \<and>
   map_of (forwarded_params sp) ''min_rating'' =
     (case map_of sp ''minRating'' of None \<Rightarrow> None | Some s \<Rightarrow> if s = [] then None else Some s) \<and>
   map_of (forwarded_params sp) ''availability'' =
     (case map_of sp ''availability'' of
        None \<Rightarrow> None | Some s \<Rightarrow> if s = [] then None else Some s) \<and>
   set (map fst (forwarded_params sp)) \<subseteq> {''genres'', ''min_rating'', ''availability''}"
proof -
  have "fr_url (djs_fetch_request e sp) = API_URL e @ ''/djs'' @ spec_djs_query sp"
    by (simp add: djs_fetch_request_def djs_url_spec)
  moreover have "map_of (forwarded_params sp) ''genres'' =
     (case map_of sp ''genres'' of None \<Rightarrow> None | Some s \<Rightarrow> if s = [] then None else Some s)"
    by (simp add: forwarded_params_def djs_renames_def split: option.splits)
  moreover have "map_of (forwarded_params sp) ''min_rating'' =
     (case map_of sp ''minRating'' of None \<Rightarrow> None | Some s \<Rightarrow> if s = [] then None else Some s)"
    by (simp add: forwarded_params_def djs_renames_def split: option.splits)
  moreover have "map_of (forwarded_params sp) ''availability'' =
     (case map_of sp ''availability'' of
        None \<Rightarrow> None | Some s \<Rightarrow> if s = [] then None else Some s)"
    by (simp add: forwarded_params_def djs_renames_def split: option.splits)
  moreover have
    "set (map fst (forwarded_params sp)) \<subseteq> {''genres'', ''min_rating'', ''availability''}"
    by (auto simp: forwarded_params_def djs_renames_def split: option.splits if_splits)
  ultimately show ?thesis
    using djs_GET_fetches djs_no_trailing_amp amp_notin_encode by simp
qed

theorem djs_GET_forwarded_query_witness:
  "fr_url (djs_fetch_request Map.empty
      [(''genres'', ''Afro beats&Amapiano''), (''minRating'', ''4''), (''availability'', [])]) =
     ''http://localhost:8000/djs?genres=Afro%20beats%26Amapiano&min_rating=4''"
  using djs_GET_forwarded_query [of Map.empty "\<lambda>_. NetworkError"
      "[(''genres'', ''Afro beats&Amapiano''), (''minRating'', ''4''), (''availability'', [])]"]
  by (simp add: API_URL_def spec_djs_query_def forwarded_params_def djs_renames_def
      encodeURIComponent_def unreserved_def percent_encode_def hex_digit_def)

subsection \<open>Query: what the handler does with a request\<close>

lemma query_try_dispatch:
  assumes "body \<noteq> JNull" "body \<noteq> JUndefined"
    and "truthy (prop_or_undefined body ''query'')"
  shows "query_try e be (Some body) =
     (let req = query_fetch_request e (prop_or_undefined body ''query'')
                  (prop_or_undefined body ''context'');
          (r, lg) = after_fetch ''Error processing query'' (be req)
      in (r, [req], lg))"
  using assms by (simp add: query_try_def get_prop_total)

lemma query_POST_missing:
  assumes "body \<noteq> JNull" "body \<noteq> JUndefined"
    and "\<not> truthy (prop_or_undefined body ''query'')"
  shows "query_POST e be (Some body) =
     \<lparr>response = mk_json_response (JObj [(''error'', JStr ''Query is required'')]) 400,
      fetches = [], logs = []\<rparr>"
  using assms
  by (simp add: query_POST_def query_try_def get_prop_total catch_all_def NextResponse_json_400)

lemma query_POST_fetches:
  assumes "body \<noteq> JNull" "body \<noteq> JUndefined"
    and "truthy (prop_or_undefined body ''query'')"
  shows "fetches (query_POST e be (Some body)) =
     [query_fetch_request e (prop_or_undefined body ''query'')
        (prop_or_undefined body ''context'')]"
  using assms
  by (simp add: query_POST_def query_try_dispatch Let_def split_beta catch_all_fetches)

lemma relay_error_relays:
  assumes "300 \<le> st" "st \<le> 599" "st \<noteq> 304"
    and "error_data rb \<noteq> JNull" "error_data rb \<noteq> JUndefined"
  shows "relay_error fb st tx rb =
     (Inr (mk_json_response
             (JObj [(''error'', js_or (prop_or_undefined (error_data rb) ''error'') (JStr fb))]) st),
      [LogApiError st tx (error_data rb)])"
  using assms
  by (simp add: relay_error_def Let_def get_prop_total NextResponse_json_def null_body_status_def)


lemma query_POST_ok:
  assumes "body \<noteq> JNull" "body \<noteq> JUndefined"
    and "truthy (prop_or_undefined body ''query'')"
    and "be (query_fetch_request e (prop_or_undefined body ''query'')
               (prop_or_undefined body ''context'')) = Responded st tx (Some data)"
    and "is_ok st"
  shows "query_POST e be (Some body) =
     \<lparr>response = mk_json_response data 200,
      fetches = [query_fetch_request e (prop_or_undefined body ''query'')
                   (prop_or_undefined body ''context'')],
      logs = []\<rparr>"
  using assms
  by (simp add: query_POST_def query_try_dispatch Let_def after_fetch_def NextResponse_json_200
      catch_all_def)


lemma query_POST_response:
  assumes "body \<noteq> JNull" "body \<noteq> JUndefined"
    and "truthy (prop_or_undefined body ''query'')"
  shows "response (query_POST e be (Some body)) =
     (case fst (after_fetch ''Error processing query''
                 (be (query_fetch_request e (prop_or_undefined body ''query'')
                        (prop_or_undefined body ''context'')))) of
        Inr r \<Rightarrow> r
      | Inl ex \<Rightarrow> mk_json_response (JObj [(''error'', JStr ''Internal server error'')]) 500)"
  using assms
  by (simp add: query_POST_def query_try_dispatch Let_def split_beta catch_all_def
      split: sum.splits prod.splits)






lemma query_POST_depends:
  assumes "b1 \<noteq> JNull" "b1 \<noteq> JUndefined" "b2 \<noteq> JNull" "b2 \<noteq> JUndefined"
    and "prop_or_undefined b1 ''query'' = prop_or_undefined b2 ''query''"
    and "prop_or_undefined b1 ''context'' = prop_or_undefined b2 ''context''"
  shows "query_POST e be (Some b1) = query_POST e be (Some b2)"
  using assms by (simp add: query_POST_def query_try_def get_prop_total)







text \<open>
  Claim C2, as stated, fails. The handler has no length bound: whatever the bound, a
  longer query is forwarded to the backend (here one that answers 200), and the
  handler does not answer 4xx. And a body that is the JSON value \<open>null\<close>, where the
  query field is missing, is answered 500 by the \<open>catch\<close>.
\<close>

theorem query_POST_not_rejected:
  "\<not> (\<exists>bound. \<forall>q. bound < length q \<longrightarrow>
        (let r = query_POST Map.empty (\<lambda>_. Responded 200 ''OK'' (Some (JObj [])))
                   (Some (JObj [(''query'', JStr q)]))
         in 400 \<le> resp_status (response r) \<and> resp_status (response r) \<le> 499 \<and>
            fetches r = [])) \<and>
   resp_status (response (query_POST Map.empty (\<lambda>_. Responded 200 ''OK'' (Some (JObj [])))
                            (Some JNull))) = 500"
proof
  show "\<not> (\<exists>bound. \<forall>q. bound < length q \<longrightarrow>
        (let r = query_POST Map.empty (\<lambda>_. Responded 200 ''OK'' (Some (JObj [])))
                   (Some (JObj [(''query'', JStr q)]))
         in 400 \<le> resp_status (response r) \<and> resp_status (response r) \<le> 499 \<and>
            fetches r = []))"
  proof
    assume "\<exists>bound. \<forall>q. bound < length q \<longrightarrow>
        (let r = query_POST Map.empty (\<lambda>_. Responded 200 ''OK'' (Some (JObj [])))
                   (Some (JObj [(''query'', JStr q)]))
         in 400 \<le> resp_status (response r) \<and> resp_status (response r) \<le> 499 \<and>
            fetches r = [])"
    then obtain bound where b: "\<forall>q. bound < length q \<longrightarrow>
        (let r = query_POST Map.empty (\<lambda>_. Responded 200 ''OK'' (Some (JObj [])))
                   (Some (JObj [(''query'', JStr q)]))
         in 400 \<le> resp_status (response r) \<and> resp_status (response r) \<le> 499 \<and>
            fetches r = [])" ..
    let ?q = "replicate (Suc bound) (CHR ''a'')"
    have "fetches (query_POST Map.empty (\<lambda>_. Responded 200 ''OK'' (Some (JObj [])))
                     (Some (JObj [(''query'', JStr ?q)]))) = []"
      using b [rule_format, of ?q] by (simp add: Let_def)
    moreover have "fetches (query_POST Map.empty (\<lambda>_. Responded 200 ''OK'' (Some (JObj [])))
                     (Some (JObj [(''query'', JStr ?q)]))) \<noteq> []"
      by (subst query_POST_fetches) (simp_all add: prop_or_undefined_def)
    ultimately show False by simp
  qed
  show "resp_status (response (query_POST Map.empty (\<lambda>_. Responded 200 ''OK'' (Some (JObj [])))
                            (Some JNull))) = 500"
    using query_POST_no_object [of "Some JNull"] by simp
qed

text \<open>
  Claim C2, amended. For a \<open>POST /api/query\<close> whose body parsed to a JSON value other
  than \<open>null\<close>: when \<open>query\<close> is absent or falsy the handler answers 400 with
  \<open>"Query is required"\<close> and calls \<open>fetch\<close> not at all; a truthy \<open>query\<close>, of any length,
  is forwarded to the backend in one \<open>fetch\<close>.
\<close>

theorem query_POST_validation:
  assumes "body \<noteq> JNull" and "body \<noteq> JUndefined"
  shows "(\<not> truthy (prop_or_undefined body ''query'') \<longrightarrow>
            query_POST e be (Some body) =
              \<lparr>response = mk_json_response (JObj [(''error'', JStr ''Query is required'')]) 400,
               fetches = [], logs = []\<rparr>) \<and>
         (truthy (prop_or_undefined body ''query'') \<longrightarrow>
            fetches (query_POST e be (Some body)) =
              [query_fetch_request e (prop_or_undefined body ''query'')
                 (prop_or_undefined body ''context'')])"
  using assms query_POST_missing [of body e be] query_POST_fetches [of body e be]
  by blast

theorem query_POST_validation_witness:
  "query_POST Map.empty (\<lambda>_. NetworkError) (Some (JObj [(''context'', JObj [])])) =
     \<lparr>response = mk_json_response (JObj [(''error'', JStr ''Query is required'')]) 400,
      fetches = [], logs = []\<rparr> \<and>
   fetches (query_POST Map.empty (\<lambda>_. Responded 422 ''Unprocessable Entity'' None)
              (Some (JObj [(''query'', JStr (replicate 5000 (CHR ''a'')))]))) =
     [query_fetch_request Map.empty (JStr (replicate 5000 (CHR ''a''))) JUndefined]"
  using query_POST_validation [of "JObj [(''context'', JObj [])]" Map.empty "\<lambda>_. NetworkError"]
    query_POST_validation [of "JObj [(''query'', JStr (replicate 5000 (CHR ''a'')))]" Map.empty
      "\<lambda>_. Responded 422 ''Unprocessable Entity'' None"]
  by (simp add: prop_or_undefined_def)

text \<open>
  Claim C3, as stated, fails: a request with \<open>use_cache = false\<close> and
  \<open>provider_preference = "secondary"\<close> is handled, for every environment and backend,
  exactly as the same query with \<open>use_cache = true\<close> and \<open>provider_preference =
  "primary"\<close>; the body forwarded holds \<open>query\<close> and \<open>context\<close> only. So the two settings
  cannot govern the processing of the request.
\<close>

theorem query_POST_drops_options:
  "\<forall>e be.
     query_POST e be
       (Some (JObj [(''query'', JStr ''Find an Amapiano DJ''), (''use_cache'', JBool False),
                    (''provider_preference'', JStr ''secondary'')])) =
     query_POST e be
       (Some (JObj [(''query'', JStr ''Find an Amapiano DJ''), (''use_cache'', JBool True),
                    (''provider_preference'', JStr ''primary'')])) \<and>
     map fr_body (fetches (query_POST e be
       (Some (JObj [(''query'', JStr ''Find an Amapiano DJ''), (''use_cache'', JBool False),
                    (''provider_preference'', JStr ''secondary'')])))) =
       [Some (JObj [(''query'', JStr ''Find an Amapiano DJ''), (''context'', JObj [])])]"
proof (intro allI conjI)
  fix e :: env and be :: backend
  show "query_POST e be
       (Some (JObj [(''query'', JStr ''Find an Amapiano DJ''), (''use_cache'', JBool False),
                    (''provider_preference'', JStr ''secondary'')])) =
     query_POST e be
       (Some (JObj [(''query'', JStr ''Find an Amapiano DJ''), (''use_cache'', JBool True),
                    (''provider_preference'', JStr ''primary'')]))"
    by (rule query_POST_depends) (simp_all add: prop_or_undefined_def)
  show "map fr_body (fetches (query_POST e be
       (Some (JObj [(''query'', JStr ''Find an Amapiano DJ''), (''use_cache'', JBool False),
                    (''provider_preference'', JStr ''secondary'')])))) =
       [Some (JObj [(''query'', JStr ''Find an Amapiano DJ''), (''context'', JObj [])])]"
    by (subst query_POST_fetches)
       (simp_all add: prop_or_undefined_def query_fetch_request_def js_or_def)
qed

text \<open>
  Claim C3, amended. The handler reads \<open>query\<close> and \<open>context\<close> of the body and nothing
  else: two bodies that agree on these two are handled alike, and the body forwarded
  is \<open>{query, context: context || {}}\<close>.
\<close>

theorem query_POST_forwards_query_and_context:
  assumes "b1 \<noteq> JNull" and "b1 \<noteq> JUndefined" and "b2 \<noteq> JNull" and "b2 \<noteq> JUndefined"
    and "prop_or_undefined b1 ''query'' = prop_or_undefined b2 ''query''"
    and "prop_or_undefined b1 ''context'' = prop_or_undefined b2 ''context''"
  shows "query_POST e be (Some b1) = query_POST e be (Some b2) \<and>
         (truthy (prop_or_undefined b1 ''query'') \<longrightarrow>
            map fr_body (fetches (query_POST e be (Some b1))) =
              [Some (JObj [(''query'', prop_or_undefined b1 ''query''),
                           (''context'', js_or (prop_or_undefined b1 ''context'') (JObj []))])])"
  using query_POST_depends [OF assms] query_POST_fetches [OF assms(1,2)]
  by (simp add: query_fetch_request_def)

theorem query_POST_forwards_query_and_context_witness:
  "query_POST Map.empty (\<lambda>_. NetworkError)
     (Some (JObj [(''query'', JStr ''Events in Oslo''), (''context'', JObj [(''city'', JStr ''Oslo'')]),
                  (''use_cache'', JBool False)])) =
   query_POST Map.empty (\<lambda>_. NetworkError)
     (Some (JObj [(''query'', JStr ''Events in Oslo''), (''context'', JObj [(''city'', JStr ''Oslo'')])])) \<and>
   map fr_body (fetches (query_POST Map.empty (\<lambda>_. NetworkError)
     (Some (JObj [(''query'', JStr ''Events in Oslo''), (''context'', JObj [(''city'', JStr ''Oslo'')]),
                  (''use_cache'', JBool False)])))) =
     [Some (JObj [(''query'', JStr ''Events in Oslo''), (''context'', JObj [(''city'', JStr ''Oslo'')])])]"
  using query_POST_forwards_query_and_context
    [of "JObj [(''query'', JStr ''Events in Oslo''), (''context'', JObj [(''city'', JStr ''Oslo'')]),
               (''use_cache'', JBool False)]"
        "JObj [(''query'', JStr ''Events in Oslo''), (''context'', JObj [(''city'', JStr ''Oslo'')])]"
        Map.empty "\<lambda>_. NetworkError"]
  by (auto simp: prop_or_undefined_def js_or_def)







section \<open>Facts about the backend of the specification\<close>

subsection \<open>Router\<close>






lemma words_book: "query_words ''Book a DJ'' = [''book'', ''a'', ''dj'']"
  by (simp add: query_words_def lower_ascii_def ws1_def)




subsection \<open>Cache\<close>









subsection \<open>Total failure\<close>

lemma parse_forwarded:
  assumes "s \<noteq> []" "length s \<le> cfg_max_query_length cfg"
  shows "parse_query cfg (fr_body (query_fetch_request e (JStr s) ctx)) =
           Some (boundary_query s ctx)"
  using assms by (simp add: parse_query_def query_fetch_request_def boundary_query_def)

lemma run_all_failed:
  assumes "list_all (\<lambda>i. rr_status (invoke cfg q d i) \<noteq> Succeeded) plan"
  shows "run cfg plan q d =
           [\<lparr>rr_id = General, rr_status = Failed, rr_content = Some generic_apology,
             rr_latency = 0, rr_error = Some ''all responders failed''\<rparr>]"
proof -
  have "\<not> list_ex (\<lambda>r. rr_status r = Succeeded) (map (invoke cfg q d) plan)"
    using assms by (induction plan) simp_all
  then show ?thesis by (simp add: run_def Let_def)
qed

lemma fresh_all_failed:
  assumes "list_all (\<lambda>i. rr_status (invoke cfg q (cfg_deadline cfg) i) \<noteq> Succeeded)
             (map fst (classify cfg q))"
  shows "fresh_answer cfg now q =
           \<lparr>syn_text = generic_apology, syn_agents = [], syn_timestamp = now,
            syn_cache_hit = False\<rparr>"
  unfolding fresh_answer_def run_all_failed [OF assms]
  by (simp add: merge_def content_of_def)

lemma answer_no_hit:
  assumes "fst (get c now (fingerprint cfg q)) = None"
  shows "fst (answer cfg c now q) = fresh_answer cfg now q"
  using assms by (auto simp: answer_def Let_def split_beta split: option.splits)

lemma generic_apology_nonempty: "generic_apology \<noteq> []"
  by (simp add: generic_apology_def)

lemma backend_configured:
  assumes "parse_query cfg (fr_body rq) = Some q" "cfg_providers_configured cfg"
  shows "fst (backend_POST_query cfg c now rq) =
           Responded 200 ''OK'' (Some (render (fst (answer cfg c now q))))"
  using assms by (simp add: backend_POST_query_def split_beta)

lemma backend_status:
  "\<exists>st tx d. fst (backend_POST_query cfg c now rq) = Responded st tx (Some d) \<and>
     d \<noteq> JNull \<and> d \<noteq> JUndefined \<and>
     (st = 200 \<or> st = 422 \<or> (st = 503 \<and> \<not> cfg_providers_configured cfg))"
  by (auto simp: backend_POST_query_def render_def split_beta split: option.splits)

lemma serve_response:
  "response (fst (serve_query e cfg c now parsed)) =
     response (query_POST e (\<lambda>rq. fst (backend_POST_query cfg c now rq)) parsed)"
  by (simp add: serve_query_def Let_def)

lemma serve_configured:
  assumes "body \<noteq> JNull" "body \<noteq> JUndefined"
    and "prop_or_undefined body ''query'' = JStr s" and "s \<noteq> []"
    and "length s \<le> cfg_max_query_length cfg"
    and "cfg_providers_configured cfg"
  shows "response (fst (serve_query e cfg c now (Some body))) =
           mk_json_response
             (render (fst (answer cfg c now
                (boundary_query s (prop_or_undefined body ''context''))))) 200"
proof -
  let ?be = "\<lambda>rq. fst (backend_POST_query cfg c now rq)"
  let ?rq = "query_fetch_request e (prop_or_undefined body ''query'')
               (prop_or_undefined body ''context'')"
  have ok: "is_ok 200" by (simp add: is_ok_def)
  have t: "truthy (prop_or_undefined body ''query'')" using assms(3,4) by simp
  have "?be ?rq = Responded 200 ''OK''
      (Some (render (fst (answer cfg c now
                (boundary_query s (prop_or_undefined body ''context''))))))"
    unfolding assms(3)
    by (rule backend_configured) (simp_all add: parse_forwarded assms)
  then have "query_POST e ?be (Some body) =
      \<lparr>response = mk_json_response (render (fst (answer cfg c now
                (boundary_query s (prop_or_undefined body ''context''))))) 200,
       fetches = [?rq], logs = []\<rparr>"
    using query_POST_ok [where body = body and e = e and be = ?be and st = 200
        and tx = "''OK''"
        and data = "render (fst (answer cfg c now
                (boundary_query s (prop_or_undefined body ''context''))))"]
      assms(1,2) t ok
    by simp
  then show ?thesis by (simp add: serve_query_def Let_def)
qed

lemma after_fetch_backend_status:
  assumes "res = Responded st tx (Some d)" "d \<noteq> JNull" "d \<noteq> JUndefined"
    and "st = 200 \<or> st = 422 \<or> st = 503"
  shows "\<exists>r. fst (after_fetch fb res) = Inr r \<and> resp_status r = st"
proof -
  consider "st = 200" | "st = 422 \<or> st = 503" using assms(4) by blast
  then show ?thesis
  proof cases
    case 1
    then show ?thesis
      using assms(1) by (simp add: after_fetch_def is_ok_def NextResponse_json_200
          mk_json_response_def)
  next
    case 2
    then have n: "\<not> is_ok st" and r: "300 \<le> st" "st \<le> 599" "st \<noteq> 304"
      by (auto simp: is_ok_def)
    have e: "error_data (Some d) \<noteq> JNull" "error_data (Some d) \<noteq> JUndefined"
      using assms(2,3) by (simp_all add: error_data_def)
    show ?thesis
      using assms(1) n relay_error_relays [OF r e, of fb tx]
      by (simp add: after_fetch_def mk_json_response_def)
  qed
qed

lemma serve_5xx:
  assumes "500 \<le> resp_status (response (fst (serve_query e cfg c now parsed)))"
  shows "parsed = None \<or> parsed = Some JNull \<or> parsed = Some JUndefined \<or>
         \<not> cfg_providers_configured cfg"
proof (rule ccontr)
  assume neg: "\<not> (parsed = None \<or> parsed = Some JNull \<or> parsed = Some JUndefined \<or>
         \<not> cfg_providers_configured cfg)"
  then obtain body where p: "parsed = Some body" and b: "body \<noteq> JNull" "body \<noteq> JUndefined"
    and conf: "cfg_providers_configured cfg"
    by (cases parsed) auto
  let ?be = "\<lambda>rq. fst (backend_POST_query cfg c now rq)"
  let ?rq = "query_fetch_request e (prop_or_undefined body ''query'')
               (prop_or_undefined body ''context'')"
  show False
  proof (cases "truthy (prop_or_undefined body ''query'')")
    case False
    then have "resp_status (response (query_POST e ?be (Some body))) = 400"
      using query_POST_missing [OF b, of e ?be] by (simp add: mk_json_response_def)
    then show False using assms by (simp add: serve_response p)
  next
    case True
    obtain st tx d where be: "?be ?rq = Responded st tx (Some d)"
      and d: "d \<noteq> JNull" "d \<noteq> JUndefined"
      and st: "st = 200 \<or> st = 422 \<or> (st = 503 \<and> \<not> cfg_providers_configured cfg)"
      using backend_status [of cfg c now ?rq] by blast
    from st conf have st': "st = 200 \<or> st = 422 \<or> st = 503" and lt: "st < 500" by auto
    obtain r where r: "fst (after_fetch ''Error processing query'' (?be ?rq)) = Inr r"
      "resp_status r = st"
      using after_fetch_backend_status [OF be d st'] by blast
    have "response (query_POST e ?be (Some body)) = r"
      using query_POST_response [OF b True, of e ?be] r(1) by simp
    then show False using assms r(2) lt by (simp add: serve_response p)
  qed
qed

lemma failing_plan:
  "map fst (classify failing_cfg (boundary_query ''Book a DJ'' JUndefined)) = [Booking]"
  by (simp add: classify_def failing_cfg_def sample_config_def boundary_query_def score_def
      words_book)

lemma failing_configured: "cfg_providers_configured failing_cfg"
  by (simp add: failing_cfg_def sample_config_def)

text \<open>
  Claim C1, as stated, fails in its last clause: with a provider configured, so that
  the degraded-answer path can run, a request whose body is the JSON value \<open>null\<close>, or
  is not JSON, is answered 500 by the handler's \<open>catch\<close>.
\<close>

theorem catch_answers_500:
  "resp_status (response (fst (serve_query Map.empty failing_cfg Map.empty 1700000000
                                 (Some JNull)))) = 500 \<and>
   resp_status (response (fst (serve_query Map.empty failing_cfg Map.empty 1700000000
                                 None))) = 500 \<and>
   cfg_providers_configured failing_cfg"
  using query_POST_no_object [of "Some JNull" Map.empty
      "\<lambda>rq. fst (backend_POST_query failing_cfg Map.empty 1700000000 rq)"]
    query_POST_no_object [of None Map.empty
      "\<lambda>rq. fst (backend_POST_query failing_cfg Map.empty 1700000000 rq)"]
  by (simp add: serve_response failing_configured)

text \<open>
  Claim C1, amended. A \<open>POST /query\<close> through the route handler and the backend of the
  specification. For a body whose \<open>query\<close> is a non-empty string within the length
  bound: when a provider is configured, the cache gives no hit and every responder of
  the dispatch plan fails or times out, the caller receives status 200 with the
  generic apology (not empty) as \<open>response\<close> and an empty \<open>agents_used\<close>. For every
  request: a status of 500 or more is returned only when the body is not JSON or is
  \<open>null\<close>, or when no provider is configured, that is, when the degraded-answer path
  cannot run.
\<close>

theorem all_failed_degrades:
  "(parsed = Some body \<and> body \<noteq> JNull \<and> body \<noteq> JUndefined \<and>
    prop_or_undefined body ''query'' = JStr s \<and> s \<noteq> [] \<and>
    length s \<le> cfg_max_query_length cfg \<and> cfg_providers_configured cfg \<and>
    fst (get c now (fingerprint cfg
           (boundary_query s (prop_or_undefined body ''context'')))) = None \<and>
    list_all (\<lambda>i. rr_status (invoke cfg
                      (boundary_query s (prop_or_undefined body ''context''))
                      (cfg_deadline cfg) i) \<noteq> Succeeded)
      (map fst (classify cfg (boundary_query s (prop_or_undefined body ''context''))))
    \<longrightarrow>
      response (fst (serve_query e cfg c now parsed)) =
        mk_json_response
          (JObj [(''response'', JStr generic_apology), (''agents_used'', JArr []),
                 (''timestamp'', JStr (show_nat now)), (''cache_hit'', JBool False)]) 200 \<and>
      generic_apology \<noteq> []) \<and>
   (500 \<le> resp_status (response (fst (serve_query e cfg c now parsed))) \<longrightarrow>
      parsed = None \<or> parsed = Some JNull \<or> parsed = Some JUndefined \<or>
      \<not> cfg_providers_configured cfg)"
proof (intro conjI impI)
  let ?q = "boundary_query s (prop_or_undefined body ''context'')"
  assume h: "parsed = Some body \<and> body \<noteq> JNull \<and> body \<noteq> JUndefined \<and>
    prop_or_undefined body ''query'' = JStr s \<and> s \<noteq> [] \<and>
    length s \<le> cfg_max_query_length cfg \<and> cfg_providers_configured cfg \<and>
    fst (get c now (fingerprint cfg ?q)) = None \<and>
    list_all (\<lambda>i. rr_status (invoke cfg ?q (cfg_deadline cfg) i) \<noteq> Succeeded)
      (map fst (classify cfg ?q))"
  then have "fst (answer cfg c now ?q) =
      \<lparr>syn_text = generic_apology, syn_agents = [], syn_timestamp = now, syn_cache_hit = False\<rparr>"
    using answer_no_hit [of c now cfg ?q] fresh_all_failed [of cfg ?q now] by auto
  then show "response (fst (serve_query e cfg c now parsed)) =
        mk_json_response
          (JObj [(''response'', JStr generic_apology), (''agents_used'', JArr []),
                 (''timestamp'', JStr (show_nat now)), (''cache_hit'', JBool False)]) 200"
    using serve_configured [of body s cfg e c now] h by (simp add: render_def)
  show "generic_apology \<noteq> []" by (rule generic_apology_nonempty)
next
  assume "500 \<le> resp_status (response (fst (serve_query e cfg c now parsed)))"
  then show "parsed = None \<or> parsed = Some JNull \<or> parsed = Some JUndefined \<or>
      \<not> cfg_providers_configured cfg"
    by (rule serve_5xx)
qed

theorem all_failed_degrades_witness:
  "response (fst (serve_query Map.empty failing_cfg Map.empty 1700000000
                    (Some (JObj [(''query'', JStr ''Book a DJ'')])))) =
     mk_json_response
       (JObj [(''response'', JStr generic_apology), (''agents_used'', JArr []),
              (''timestamp'', JStr (show_nat 1700000000)), (''cache_hit'', JBool False)]) 200 \<and>
   generic_apology \<noteq> []"
  using all_failed_degrades [of "Some (JObj [(''query'', JStr ''Book a DJ'')])"
      "JObj [(''query'', JStr ''Book a DJ'')]" "''Book a DJ''"
      failing_cfg Map.empty 1700000000 Map.empty]
  by (simp add: prop_or_undefined_def failing_plan get_def failing_configured)
     (simp add: failing_cfg_def sample_config_def invoke_def boundary_query_def)

end
